theory Spec2Isabelle
  imports Complex_Main "HOL-Library.Sublist"
begin

section \<open>Python values used by the exercise calculator\<close>

text \<open>
  The program (\<^verbatim>\<open>Final.py\<close> and its earlier variant \<^verbatim>\<open>Main.py\<close>) reads lines from
  the console, computes with Python floats and prints. The model keeps the control flow
  and the formulas of the source and makes every effect explicit:
  \<^item> a Python float is a \<open>pyfloat\<close>: a real number, or one of the three special values
    that \<^verbatim>\<open>float()\<close> can return for a string (\<^verbatim>\<open>inf\<close>, \<^verbatim>\<open>-inf\<close>, \<^verbatim>\<open>nan\<close>).
    Arithmetic on finite values is exact, with two exceptions where the binary format
    decides what the program does next: the power \<^verbatim>\<open>x ** 2\<close> raises when the square is
    beyond the range of a float, and the running total of the summary is rounded to the
    nearest float at each addition, as the integer printed for it depends on that.
    Elsewhere binary rounding, overflow, underflow and the sign of zero are not modelled;
  \<^item> a Python string is a list of \<open>pychar\<close>: the 8-bit characters of Isabelle plus the
    four box-drawing and block characters that the program prints;
  \<^item> an exception is a value of type \<open>pyerror\<close>;
  \<^item> standard input is the list of lines still to be read, and standard output is the
    list of \<^verbatim>\<open>input\<close> and \<^verbatim>\<open>print\<close> calls made, in order.
\<close>

datatype pyerror =
  EOFError | ValueError | OverflowError | ZeroDivisionError | IndexError | TypeError |
  UnboundLocalError | MemoryError

datatype pyfloat = Fin real | PInf | NInf | NaN

datatype pychar = Chr char | FULL_BLOCK | LIGHT_SHADE | LEFT_HALF_BLOCK | BOX_HORIZONTAL

type_synonym pystr = "pychar list"

definition py :: "string \<Rightarrow> pystr" where
  "py s = map Chr s"

datatype pyval = Str pystr | Integer int | Float pyfloat

text \<open>A number is an \<^verbatim>\<open>int\<close> or a \<^verbatim>\<open>float\<close>: \<^verbatim>\<open>constrain\<close> is called with integer
  limits and returns one of its three arguments as it is, and \<^verbatim>\<open>print\<close> shows the
  difference (\<^verbatim>\<open>4\<close> against \<^verbatim>\<open>4.0\<close>).\<close>

datatype pynum = IntNum int | FloatNum pyfloat

fun to_float :: "pynum \<Rightarrow> pyfloat" where
  "to_float (IntNum i) = Fin (of_int i)"
| "to_float (FloatNum x) = x"

fun num_val :: "pynum \<Rightarrow> pyval" where
  "num_val (IntNum i) = Integer i"
| "num_val (FloatNum x) = Float x"

text \<open>
  \<open>Input p\<close> is a call \<^verbatim>\<open>input(p)\<close>; \<open>Print args sep end\<close> is a call
  \<^verbatim>\<open>print(*args, sep=sep, end=end)\<close>. The decimal text that \<^verbatim>\<open>print\<close> produces for a
  number is not modelled: the event keeps the number.
\<close>

datatype event = Input pystr | Print "pyval list" pystr pystr

datatype 'a outcome = Raise pyerror | Return 'a "pystr list"

type_synonym 'a io = "pystr list \<Rightarrow> event list \<times> 'a outcome"

definition ret :: "'a \<Rightarrow> 'a io" where
  "ret x = (\<lambda>inp. ([], Return x inp))"

definition emit :: "event list \<Rightarrow> unit io" where
  "emit es = (\<lambda>inp. (es, Return () inp))"

definition lift :: "pyerror + 'a \<Rightarrow> 'a io" where
  "lift r = (\<lambda>inp. case r of Inl e \<Rightarrow> ([], Raise e) | Inr x \<Rightarrow> ([], Return x inp))"

definition prepend :: "event list \<Rightarrow> event list \<times> 'a outcome \<Rightarrow> event list \<times> 'a outcome" where
  "prepend es r = (es @ fst r, snd r)"

definition bind :: "'a io \<Rightarrow> ('a \<Rightarrow> 'b io) \<Rightarrow> 'b io" where
  "bind m f = (\<lambda>inp. case m inp of
       (out, Raise e) \<Rightarrow> (out, Raise e)
     | (out, Return x rest) \<Rightarrow> prepend out (f x rest))"

subsection \<open>Float arithmetic\<close>

fun flt :: "pyfloat \<Rightarrow> pyfloat \<Rightarrow> bool" where
  "flt NaN _ = False"
| "flt _ NaN = False"
| "flt (Fin a) (Fin b) = (a < b)"
| "flt PInf _ = False"
| "flt _ PInf = True"
| "flt _ NInf = False"
| "flt NInf _ = True"

definition fgt :: "pyfloat \<Rightarrow> pyfloat \<Rightarrow> bool" where
  "fgt a b = flt b a"

definition fle :: "pyfloat \<Rightarrow> pyfloat \<Rightarrow> bool" where
  "fle a b = (flt a b \<or> (a = b \<and> a \<noteq> NaN))"

fun signum :: "pyfloat \<Rightarrow> real" where
  "signum (Fin a) = sgn a"
| "signum PInf = 1"
| "signum NInf = - 1"
| "signum NaN = 0"

definition inf_of_sign :: "real \<Rightarrow> pyfloat" where
  "inf_of_sign s = (if 0 < s then PInf else if s < 0 then NInf else NaN)"

fun fneg :: "pyfloat \<Rightarrow> pyfloat" where
  "fneg (Fin a) = Fin (- a)"
| "fneg PInf = NInf"
| "fneg NInf = PInf"
| "fneg NaN = NaN"

fun fadd :: "pyfloat \<Rightarrow> pyfloat \<Rightarrow> pyfloat" where
  "fadd NaN _ = NaN"
| "fadd _ NaN = NaN"
| "fadd (Fin a) (Fin b) = Fin (a + b)"
| "fadd PInf NInf = NaN"
| "fadd NInf PInf = NaN"
| "fadd PInf _ = PInf"
| "fadd _ PInf = PInf"
| "fadd NInf _ = NInf"
| "fadd _ NInf = NInf"

definition fsub :: "pyfloat \<Rightarrow> pyfloat \<Rightarrow> pyfloat" where
  "fsub a b = fadd a (fneg b)"

fun fmul :: "pyfloat \<Rightarrow> pyfloat \<Rightarrow> pyfloat" where
  "fmul NaN _ = NaN"
| "fmul _ NaN = NaN"
| "fmul (Fin a) (Fin b) = Fin (a * b)"
| "fmul a b = inf_of_sign (signum a * signum b)"

text \<open>\<^verbatim>\<open>a / b\<close>: Python raises on a zero divisor, whatever the dividend.\<close>

fun truediv :: "pyfloat \<Rightarrow> pyfloat \<Rightarrow> pyerror + pyfloat" where
  "truediv NaN b = (if b = Fin 0 then Inl ZeroDivisionError else Inr NaN)"
| "truediv _ NaN = Inr NaN"
| "truediv (Fin a) (Fin b) = (if b = 0 then Inl ZeroDivisionError else Inr (Fin (a / b)))"
| "truediv (Fin a) _ = Inr (Fin 0)"
| "truediv a (Fin b) = (if b = 0 then Inl ZeroDivisionError else Inr (inf_of_sign (signum a * sgn b)))"
| "truediv _ _ = Inr NaN"

text \<open>\<^verbatim>\<open>a // b\<close> and \<^verbatim>\<open>a % b\<close> on floats: the quotient is rounded down and the
  remainder has the sign of the divisor.\<close>

fun floordiv :: "pyfloat \<Rightarrow> pyfloat \<Rightarrow> pyerror + pyfloat" where
  "floordiv NaN b = (if b = Fin 0 then Inl ZeroDivisionError else Inr NaN)"
| "floordiv _ NaN = Inr NaN"
| "floordiv (Fin a) (Fin b) =
     (if b = 0 then Inl ZeroDivisionError else Inr (Fin (of_int \<lfloor>a / b\<rfloor>)))"
| "floordiv (Fin a) b = Inr (Fin (if a * signum b < 0 then - 1 else 0))"
| "floordiv _ b = (if b = Fin 0 then Inl ZeroDivisionError else Inr NaN)"

fun pymod :: "pyfloat \<Rightarrow> pyfloat \<Rightarrow> pyerror + pyfloat" where
  "pymod NaN b = (if b = Fin 0 then Inl ZeroDivisionError else Inr NaN)"
| "pymod _ NaN = Inr NaN"
| "pymod (Fin a) (Fin b) =
     (if b = 0 then Inl ZeroDivisionError else Inr (Fin (a - b * of_int \<lfloor>a / b\<rfloor>)))"
| "pymod (Fin a) b = Inr (if a * signum b < 0 then b else Fin a)"
| "pymod _ b = (if b = Fin 0 then Inl ZeroDivisionError else Inr NaN)"

text \<open>\<^verbatim>\<open>x ** 2\<close> on a float raises \<^verbatim>\<open>OverflowError\<close> when the square of a finite
  \<open>x\<close> is not a finite float, that is when it rounds to infinity: from
  \<open>2 ^ 1024 - 2 ^ 970\<close> on. (The products \<^verbatim>\<open>x * y\<close> never raise.)\<close>

definition FLOAT_OVERFLOW :: real where
  "FLOAT_OVERFLOW = 2 ^ 1024 - 2 ^ 970"

fun pow2 :: "pyfloat \<Rightarrow> pyerror + pyfloat" where
  "pow2 (Fin x) = (if FLOAT_OVERFLOW \<le> x * x then Inl OverflowError else Inr (Fin (x * x)))"
| "pow2 NaN = Inr NaN"
| "pow2 _ = Inr PInf"

text \<open>The builtins \<^verbatim>\<open>max(a, b)\<close> and \<^verbatim>\<open>min(a, b)\<close> keep the first argument unless the
  second compares strictly greater (smaller); an \<^verbatim>\<open>int\<close> and a \<^verbatim>\<open>float\<close> are compared
  by their values.\<close>

definition pymax :: "pynum \<Rightarrow> pynum \<Rightarrow> pynum" where
  "pymax a b = (if fgt (to_float b) (to_float a) then b else a)"

definition pymin :: "pynum \<Rightarrow> pynum \<Rightarrow> pynum" where
  "pymin a b = (if flt (to_float b) (to_float a) then b else a)"

text \<open>\<^verbatim>\<open>round(x)\<close> rounds to the nearest integer, a tie to the even one; \<^verbatim>\<open>int(x)\<close>
  truncates towards zero. Both raise on the special values.\<close>

definition round_half_even :: "real \<Rightarrow> int" where
  "round_half_even x =
     (let f = \<lfloor>x\<rfloor>; d = x - of_int f
      in if d < 1 / 2 then f else if 1 / 2 < d then f + 1 else if even f then f else f + 1)"

fun pyround :: "pyfloat \<Rightarrow> pyerror + int" where
  "pyround (Fin x) = Inr (round_half_even x)"
| "pyround NaN = Inl ValueError"
| "pyround _ = Inl OverflowError"

fun pyint :: "pyfloat \<Rightarrow> pyerror + int" where
  "pyint (Fin x) = Inr (if 0 \<le> x then \<lfloor>x\<rfloor> else \<lceil>x\<rceil>)"
| "pyint NaN = Inl ValueError"
| "pyint _ = Inl OverflowError"

text \<open>\<^verbatim>\<open>round(x, 2)\<close> keeps a float and passes the special values through; an
  \<^verbatim>\<open>int\<close> is returned as it is.\<close>

fun pyround2 :: "pyfloat \<Rightarrow> pyfloat" where
  "pyround2 (Fin x) = Fin (of_int (round_half_even (x * 100)) / 100)"
| "pyround2 a = a"

fun round2 :: "pynum \<Rightarrow> pynum" where
  "round2 (IntNum i) = IntNum i"
| "round2 (FloatNum x) = FloatNum (pyround2 x)"

text \<open>The nearest float (IEEE 754 binary64, ties to the even significand) of a real number:
  \<open>float_exponent x\<close> is the \<open>e\<close> with \<open>2 ^ e \<le> \<bar>x\<bar> < 2 ^ (e + 1)\<close>, the floats of that
  binade are the multiples of \<open>2 ^ (e - 52)\<close>, those below \<open>2 ^ (- 1022)\<close> the multiples of
  \<open>2 ^ (- 1074)\<close>, and a result of magnitude \<open>2 ^ 1024\<close> is an infinity.\<close>

fun bit_length :: "nat \<Rightarrow> nat" where
  "bit_length n = (if n = 0 then 0 else Suc (bit_length (n div 2)))"

declare bit_length.simps [simp del]

definition float_exponent :: "real \<Rightarrow> int" where
  "float_exponent x =
     (if 1 \<le> \<bar>x\<bar> then int (bit_length (nat \<lfloor>\<bar>x\<bar>\<rfloor>)) - 1
      else - int (bit_length (nat \<lceil>1 / \<bar>x\<bar>\<rceil> - 1)))"

definition binary64 :: "real \<Rightarrow> pyfloat" where
  "binary64 x =
     (if x = 0 then Fin 0
      else let e = max (float_exponent x) (- 1022);
               ulp = 2 powi (e - 52);
               y = of_int (round_half_even (x / ulp)) * ulp
           in if 2 ^ 1024 \<le> \<bar>y\<bar> then (if 0 < x then PInf else NInf) else Fin y)"

text \<open>\<^verbatim>\<open>a + b\<close> with the sum of two finite floats rounded to the nearest float.\<close>

fun float_add :: "pyfloat \<Rightarrow> pyfloat \<Rightarrow> pyfloat" where
  "float_add (Fin a) (Fin b) = binary64 (a + b)"
| "float_add a b = fadd a b"

subsection \<open>String and list builtins\<close>

definition isspace :: "pychar \<Rightarrow> bool" where
  "isspace c = (case c of
       Chr a \<Rightarrow> (let n = (of_char a :: nat)
                 in (9 \<le> n \<and> n \<le> 13) \<or> (28 \<le> n \<and> n \<le> 32) \<or> n = 133 \<or> n = 160)
     | _ \<Rightarrow> False)"

definition strip :: "pystr \<Rightarrow> pystr" where
  "strip s = rev (dropWhile isspace (rev (dropWhile isspace s)))"

definition lower_char :: "pychar \<Rightarrow> pychar" where
  "lower_char c = (case c of
       Chr a \<Rightarrow> (let n = (of_char a :: nat)
                 in if (65 \<le> n \<and> n \<le> 90) \<or> (192 \<le> n \<and> n \<le> 222 \<and> n \<noteq> 215)
                    then Chr (char_of (n + 32)) else c)
     | _ \<Rightarrow> c)"

definition lower :: "pystr \<Rightarrow> pystr" where
  "lower s = map lower_char s"

definition ljust :: "nat \<Rightarrow> pystr \<Rightarrow> pystr" where
  "ljust n s = s @ replicate (n - length s) (Chr CHR '' '')"

text \<open>\<^verbatim>\<open>s * n\<close> on a string. Where \<open>n\<close> is a constant of the program (2, 3, the length of
  the title) the result is \<open>repeat n s\<close>. Where \<open>n\<close> is computed from the input, \<open>times\<close>
  has the two failures of Python (a 64-bit build): \<^verbatim>\<open>OverflowError\<close> when \<open>n\<close> or the
  length of the result does not fit a machine index, whose largest value is
  \<^verbatim>\<open>sys.maxsize\<close>, and \<^verbatim>\<open>MemoryError\<close> when the result cannot be allocated. How long a
  string the machine can allocate is the parameter \<open>capacity\<close> of the model.\<close>

definition repeat :: "nat \<Rightarrow> 'a list \<Rightarrow> 'a list" where
  "repeat n s = concat (replicate n s)"

definition sys_maxsize :: int where
  "sys_maxsize = 2 ^ 63 - 1"

definition times :: "nat \<Rightarrow> int \<Rightarrow> pystr \<Rightarrow> pyerror + pystr" where
  "times capacity n s =
     (if n < - sys_maxsize - 1 \<or> sys_maxsize < n then Inl OverflowError
      else if n < 1 then Inr []
      else if sys_maxsize < int (length s) * n then Inl OverflowError
      else if int capacity < int (length s) * n then Inl MemoryError
      else Inr (repeat (nat n) s))"

fun index_of :: "'a list \<Rightarrow> 'a \<Rightarrow> nat option" where
  "index_of [] x = None"
| "index_of (y # ys) x = (if y = x then Some 0 else map_option Suc (index_of ys x))"

definition getitem :: "'a list \<Rightarrow> int \<Rightarrow> pyerror + 'a" where
  "getitem xs i =
     (let n = int (length xs); j = (if i < 0 then n + i else i)
      in if 0 \<le> j \<and> j < n then Inr (xs ! nat j) else Inl IndexError)"

fun join :: "pystr \<Rightarrow> pystr list \<Rightarrow> pystr" where
  "join sep [] = []"
| "join sep [s] = s"
| "join sep (s # ss) = s @ sep @ join sep ss"

subsection \<open>Module constants\<close>

definition KILOMETERS_PER_MILE :: pyfloat where "KILOMETERS_PER_MILE = Fin 1.609344"
definition KILOGRAMS_PER_POUND :: pyfloat where "KILOGRAMS_PER_POUND = Fin 0.45359237"
definition ACRES_PER_SQUARE_MILE :: pyfloat where "ACRES_PER_SQUARE_MILE = Fin 640"
definition CALORIES_PER_SQUARE :: pyfloat where "CALORIES_PER_SQUARE = Fin 100"
definition MINUTES_PER_HOUR :: pyfloat where "MINUTES_PER_HOUR = Fin 60"
definition CALORIES_BAR_LABEL_SIZE :: nat where "CALORIES_BAR_LABEL_SIZE = 15"
definition LABEL_COLUMN_SIZE_Final :: nat where "LABEL_COLUMN_SIZE_Final = 30"
definition LABEL_COLUMN_SIZE_Main :: nat where "LABEL_COLUMN_SIZE_Main = 28"

definition CURSOR_UP :: pystr where "CURSOR_UP = Chr (CHR 0x1B) # py ''[A''"
definition CLEAR_REST_OF_SCREEN :: pystr where "CLEAR_REST_OF_SCREEN = Chr (CHR 0x1B) # py ''[J''"
definition CLEAR_REST_OF_LINE :: pystr where "CLEAR_REST_OF_LINE = Chr (CHR 0x1B) # py ''[K''"

definition SWIMMING_STYLES :: "pystr list" where
  "SWIMMING_STYLES =
     [py ''intense backstroke'', py ''backstroke'', py ''intense breaststroke'',
      py ''breaststroke'', py ''butterfly'', py ''intense crawl'', py ''crawl'',
      py ''sidestroke'', py ''high effort treading water'', py ''treading water'']"

definition SWIMMING_STYLE_METS :: "pyfloat list" where
  "SWIMMING_STYLE_METS =
     [Fin 9.5, Fin 4.8, Fin 10.3, Fin 5.3, Fin 13.8, Fin 10, Fin 8.3, Fin 7, Fin 9.8, Fin 3.5]"

definition TITLE :: pystr where "TITLE = py ''Daniel's Exercise Calculator''"

definition COMMANDS_Final :: "pystr list" where
  "COMMANDS_Final = [py ''biking'', py ''running'', py ''swimming'', py ''exit'']"

definition COMMANDS_Main :: "pystr list" where
  "COMMANDS_Main =
     [py ''biking'', py ''running'', py ''swimming'', py ''swimming styles'', py ''exit'']"

definition sp :: pystr where "sp = py '' ''"
definition nl :: pystr where "nl = [Chr (CHR 0x0A)]"
definition quote :: pystr where "quote = [Chr (CHR 0x27)]"

text \<open>\<^verbatim>\<open>print(a, b, ...)\<close> with the default separator and line end.\<close>

definition println :: "pyval list \<Rightarrow> event" where
  "println args = Print args sp nl"

section \<open>The calculators\<close>

definition constrain :: "pynum \<Rightarrow> pynum \<Rightarrow> pynum \<Rightarrow> pynum" where
  "constrain lower_limit number upper_limit = pymin (pymax lower_limit number) upper_limit"

definition print_stat_Final :: "pystr \<Rightarrow> pynum \<Rightarrow> pystr \<Rightarrow> unit io" where
  "print_stat_Final label number units =
     emit [println [Str (ljust LABEL_COLUMN_SIZE_Final label), Str (py ''|''),
                    num_val (round2 number), Str units]]"

definition print_stat_Main :: "pystr \<Rightarrow> pynum \<Rightarrow> unit io" where
  "print_stat_Main label number =
     emit [Print [Str (ljust LABEL_COLUMN_SIZE_Main label), num_val (round2 number)]
                 (py '' | '') nl]"

text \<open>\<^verbatim>\<open>met\<close> is the integer 4 or 16 when the speed is clamped and a float otherwise; in
  \<^verbatim>\<open>duration_hours * met * weight_kg\<close> it is converted to a float.\<close>

definition calc_biking_Final :: "pyfloat \<Rightarrow> pyfloat \<Rightarrow> pyfloat \<Rightarrow> pyfloat io" where
  "calc_biking_Final weight_kg distance_mi duration_hours =
     bind (lift (truediv distance_mi duration_hours)) (\<lambda>speed_mph.
     let met = constrain (IntNum 4) (FloatNum (fsub speed_mph (Fin 5))) (IntNum 16) in
     bind (print_stat_Final (py ''Metabolic Equivalent of Task'') met []) (\<lambda>_.
     bind (lift (truediv distance_mi (Fin 4))) (\<lambda>side_length_mi.
     bind (lift (pow2 side_length_mi)) (\<lambda>area_square_mi.
     let area_acres = fmul area_square_mi ACRES_PER_SQUARE_MILE in
     bind (print_stat_Final (py ''Traced square area'') (FloatNum area_square_mi)
             (py ''square miles'')) (\<lambda>_.
     bind (print_stat_Final (py ''Traced square area'') (FloatNum area_acres) (py ''acres''))
       (\<lambda>_.
     ret (fmul (fmul duration_hours (to_float met)) weight_kg)))))))"

definition calc_biking_Main :: "pyfloat \<Rightarrow> pyfloat \<Rightarrow> pyfloat \<Rightarrow> pyfloat io" where
  "calc_biking_Main weight_kg distance_miles duration_hours =
     bind (lift (truediv distance_miles duration_hours)) (\<lambda>speed_mph.
     let met = constrain (IntNum 4) (FloatNum (fsub speed_mph (Fin 5))) (IntNum 16) in
     bind (print_stat_Main (py ''Metabolic Equivalent of Task'') met) (\<lambda>_.
     bind (lift (truediv distance_miles (Fin 4))) (\<lambda>side_length_miles.
     bind (lift (pow2 side_length_miles)) (\<lambda>area_square_miles.
     let area_acres = fmul area_square_miles ACRES_PER_SQUARE_MILE in
     bind (print_stat_Main (py ''Traced square area (miles^2)'') (FloatNum area_square_miles))
       (\<lambda>_.
     bind (print_stat_Main (py ''Traced square area (acres)'') (FloatNum area_acres)) (\<lambda>_.
     ret (fmul (fmul duration_hours (to_float met)) weight_kg)))))))"

text \<open>Lines 194 to 199 of \<^verbatim>\<open>Final.py\<close> (98 to 102 of \<^verbatim>\<open>Main.py\<close>), the same in both
  files: the cardio-respiratory fitness factor from the age and the resting heart rate. The
  lower limit of \<^verbatim>\<open>constrain\<close> is the integer 1; the factor is only ever a multiplier of
  the float \<^verbatim>\<open>calories_burned\<close>, so it is kept as the float of that product.\<close>

definition car_resp_fitness_factor :: "pyfloat \<Rightarrow> pyfloat \<Rightarrow> pyerror + pyfloat" where
  "car_resp_fitness_factor age_years resting_heart_bpm =
     (let max_heart_bpm = fsub (Fin 208) (fmul (Fin 0.7) age_years)
      in case truediv (fmul (Fin 15.3) max_heart_bpm) resting_heart_bpm of
           Inl e \<Rightarrow> Inl e
         | Inr vo2_max \<Rightarrow>
             Inr (to_float
               (constrain (IntNum 1) (FloatNum (fsub (Fin 1.285) (fmul (Fin 0.005) vo2_max)))
                  (FloatNum (Fin 1.07)))))"

section \<open>The validated input readers\<close>

text \<open>
  Each reader is a loop around \<^verbatim>\<open>input(prompt)\<close>. One iteration reads one line, so the
  loop is a recursion on the lines of standard input; at the end of the input
  \<^verbatim>\<open>input\<close> raises \<^verbatim>\<open>EOFError\<close>, which no reader catches. The builtin
  \<^verbatim>\<open>float\<close> is the parameter \<open>float_of\<close>: \<open>None\<close> where it raises
  \<^verbatim>\<open>ValueError\<close>.
\<close>

definition clear_screen :: event where
  "clear_screen = Print [Str CLEAR_REST_OF_SCREEN] sp []"

definition cursor_up :: "nat \<Rightarrow> event" where
  "cursor_up n = Print [Str (repeat n CURSOR_UP)] sp []"

fun positive_number_loop_Final ::
  "(pystr \<Rightarrow> pyfloat option) \<Rightarrow> pystr \<Rightarrow> pystr list \<Rightarrow> event list \<times> pyfloat outcome" where
  "positive_number_loop_Final float_of prompt [] = ([Input prompt], Raise EOFError)"
| "positive_number_loop_Final float_of prompt (line # rest) =
     (let user_input = lower (strip line) in
      case float_of user_input of
        Some number \<Rightarrow>
          if fgt number (Fin 0) then ([Input prompt, clear_screen], Return number rest)
          else prepend
            [Input prompt, clear_screen,
             println [Str (user_input @ py '' is not greater than zero. Please try again.'')],
             cursor_up 2]
            (positive_number_loop_Final float_of prompt rest)
      | None \<Rightarrow>
          prepend
            [Input prompt, clear_screen,
             println [Str (quote @ user_input @ quote @ py '' is not a number. Please try again.'')],
             println [Str (py ''(You must use digits, not words, as in '10', not 'ten'.)'')],
             cursor_up 3]
            (positive_number_loop_Final float_of prompt rest))"

definition get_positive_number_Final :: "(pystr \<Rightarrow> pyfloat option) \<Rightarrow> pystr \<Rightarrow> pyfloat io" where
  "get_positive_number_Final float_of prompt =
     positive_number_loop_Final float_of
       (ljust LABEL_COLUMN_SIZE_Final prompt @ py '' | '' @ CLEAR_REST_OF_LINE)"

fun positive_number_loop_Main ::
  "(pystr \<Rightarrow> pyfloat option) \<Rightarrow> pystr \<Rightarrow> pystr list \<Rightarrow> event list \<times> pyfloat outcome" where
  "positive_number_loop_Main float_of prompt [] = ([Input prompt], Raise EOFError)"
| "positive_number_loop_Main float_of prompt (line # rest) =
     (let user_input = strip line in
      case float_of user_input of
        Some number \<Rightarrow>
          if fgt number (Fin 0) then ([Input prompt, clear_screen], Return number rest)
          else prepend
            [Input prompt, clear_screen,
             println [Str (py ''The number must be positive. Please try again.'')],
             cursor_up 2]
            (positive_number_loop_Main float_of prompt rest)
      | None \<Rightarrow>
          prepend
            [Input prompt, clear_screen,
             println [Str (quote @ user_input @ quote @ py '' is not a number. Please try again.'')],
             cursor_up 2]
            (positive_number_loop_Main float_of prompt rest))"

definition get_positive_number_Main :: "(pystr \<Rightarrow> pyfloat option) \<Rightarrow> pystr \<Rightarrow> pyfloat io" where
  "get_positive_number_Main float_of prompt =
     positive_number_loop_Main float_of
       (ljust LABEL_COLUMN_SIZE_Main prompt @ py '' | '' @ CLEAR_REST_OF_LINE)"

fun index_of_one_of_loop_Final ::
  "pystr \<Rightarrow> pystr list \<Rightarrow> pystr list \<Rightarrow> event list \<times> nat outcome" where
  "index_of_one_of_loop_Final prompt options [] = ([Input prompt], Raise EOFError)"
| "index_of_one_of_loop_Final prompt options (line # rest) =
     (let user_input = lower (strip line) in
      if user_input = py ''options'' then
        prepend
          ([Input prompt, clear_screen, println [Str (nl @ py ''Options:'')]]
           @ map (\<lambda>option. println [Str option]) options
           @ [println [Str []]])
          (index_of_one_of_loop_Final prompt options rest)
      else case index_of options user_input of
        Some option_index \<Rightarrow> ([Input prompt, clear_screen], Return option_index rest)
      | None \<Rightarrow>
          prepend
            [Input prompt, clear_screen,
             println [Str (quote @ user_input @ quote @ py '' is not an option. Please try again.'')],
             println [Str (py ''(To see the possible options, enter 'options'.)'')],
             cursor_up 3]
            (index_of_one_of_loop_Final prompt options rest))"

definition get_index_of_one_of_Final :: "pystr \<Rightarrow> pystr list \<Rightarrow> nat io" where
  "get_index_of_one_of_Final prompt options =
     index_of_one_of_loop_Final
       (ljust LABEL_COLUMN_SIZE_Final prompt @ py '' | '' @ CLEAR_REST_OF_LINE) options"

fun index_of_one_of_loop_Main ::
  "pystr \<Rightarrow> pystr list \<Rightarrow> pystr list \<Rightarrow> event list \<times> nat outcome" where
  "index_of_one_of_loop_Main prompt options [] = ([Input prompt], Raise EOFError)"
| "index_of_one_of_loop_Main prompt options (line # rest) =
     (let user_input = lower (strip line) in
      case index_of options user_input of
        Some option_index \<Rightarrow> ([Input prompt, clear_screen], Return option_index rest)
      | None \<Rightarrow>
          prepend
            [Input prompt, clear_screen,
             println [Str (quote @ user_input @ quote @ py '' is not an option. Please try again.'')],
             cursor_up 2]
            (index_of_one_of_loop_Main prompt options rest))"

definition get_index_of_one_of_Main :: "pystr \<Rightarrow> pystr list \<Rightarrow> nat io" where
  "get_index_of_one_of_Main prompt options =
     index_of_one_of_loop_Main
       (ljust LABEL_COLUMN_SIZE_Main prompt @ py '' | '' @ CLEAR_REST_OF_LINE) options"

text \<open>\<^verbatim>\<open>get_yes_or_no\<close> exists in \<^verbatim>\<open>Final.py\<close> only. The argument \<^verbatim>\<open>default\<close> (here \<open>dflt\<close>) is \<open>None\<close>,
  \<open>Some True\<close> or \<open>Some False\<close>.\<close>

fun yes_or_no_loop ::
  "pystr \<Rightarrow> bool option \<Rightarrow> pystr \<Rightarrow> pystr list \<Rightarrow> event list \<times> bool outcome" where
  "yes_or_no_loop prompt dflt default_response [] = ([Input prompt], Raise EOFError)"
| "yes_or_no_loop prompt dflt default_response (line # rest) =
     (let user_input = lower (strip line) in
      if user_input \<in> set [py ''yes'', py ''y''] then
        ([Input prompt, clear_screen], Return True rest)
      else if user_input \<in> set [py ''no'', py ''n''] then
        ([Input prompt, clear_screen], Return False rest)
      else case (user_input, dflt) of
        ([], Some response) \<Rightarrow>
          ([Input prompt, clear_screen, Print [Str CURSOR_UP] sp [],
            println [Str (prompt @ default_response)]],
           Return response rest)
      | _ \<Rightarrow> prepend
          [Input prompt, clear_screen,
           println [Str (quote @ user_input @ quote @ py '' is not a yes or no. Please try again.'')],
           cursor_up 2]
          (yes_or_no_loop prompt dflt default_response rest))"

definition get_yes_or_no :: "pystr \<Rightarrow> bool option \<Rightarrow> bool io" where
  "get_yes_or_no prompt dflt =
     (let default_response = (if dflt = Some True then py ''yes'' else py ''no'');
          prompt1 = (if dflt \<noteq> None
                     then prompt @ py '' (default: '' @ default_response @ py '')'' else prompt);
          prompt2 = ljust LABEL_COLUMN_SIZE_Final prompt1 @ py '' | '' @ CLEAR_REST_OF_LINE
      in yes_or_no_loop prompt2 dflt default_response)"

section \<open>Running and swimming\<close>

definition calc_running_Final ::
  "(pystr \<Rightarrow> pyfloat option) \<Rightarrow> pyfloat \<Rightarrow> pyfloat \<Rightarrow> pyfloat io" where
  "calc_running_Final float_of weight_kg distance_km =
     bind (get_positive_number_Final float_of (py ''Age (in years)?'')) (\<lambda>age_years.
     bind (get_positive_number_Final float_of (py ''Resting heart rate (in BPM)?''))
       (\<lambda>resting_heart_bpm.
     bind (get_yes_or_no (py ''On a treadmill?'') (Some False)) (\<lambda>on_a_treadmill.
     bind (lift (car_resp_fitness_factor age_years resting_heart_bpm)) (\<lambda>fitness_factor.
     let air_resistance_factor = (if \<not> on_a_treadmill then Fin 0.84 else Fin 0);
         calories_burned = fmul (fadd (fmul (Fin 0.95) weight_kg) air_resistance_factor) distance_km
     in ret (fmul calories_burned fitness_factor)))))"

definition calc_running_Main ::
  "(pystr \<Rightarrow> pyfloat option) \<Rightarrow> pyfloat \<Rightarrow> pyfloat \<Rightarrow> pyfloat io" where
  "calc_running_Main float_of weight_kg distance_km =
     bind (get_positive_number_Main float_of (py ''Age (years)?'')) (\<lambda>age_years.
     bind (get_positive_number_Main float_of (py ''Resting heart rate (BPM)?''))
       (\<lambda>resting_heart_bpm.
     bind (lift (car_resp_fitness_factor age_years resting_heart_bpm)) (\<lambda>fitness_factor.
     ret (fmul (fmul (fadd (fmul (Fin 0.95) weight_kg) (Fin 0.84)) distance_km)
            fitness_factor))))"

definition calc_swimming_Final :: "pyfloat \<Rightarrow> pyfloat \<Rightarrow> pyfloat io" where
  "calc_swimming_Final weight_kg duration_hours =
     bind (get_index_of_one_of_Final (py ''Swimming style?'') SWIMMING_STYLES) (\<lambda>style_index.
     bind (lift (getitem SWIMMING_STYLE_METS (int style_index))) (\<lambda>style_met.
     ret (fmul (fmul duration_hours style_met) weight_kg)))"

definition calc_swimming_Main :: "pyfloat \<Rightarrow> pyfloat \<Rightarrow> pyfloat io" where
  "calc_swimming_Main weight_kg duration_hours =
     bind (get_index_of_one_of_Main (py ''Swimming style?'') SWIMMING_STYLES) (\<lambda>style_index.
     bind (lift (getitem SWIMMING_STYLE_METS (int style_index))) (\<lambda>style_met.
     ret (fmul (fmul duration_hours style_met) weight_kg)))"

section \<open>The calories bar and the summary\<close>

text \<open>\<^verbatim>\<open>print_calories_bar\<close> is the same in both files but for the width of the label:
  \<^verbatim>\<open>CALORIES_BAR_LABEL_SIZE\<close> in \<^verbatim>\<open>Final.py\<close>, the literal 13 in \<^verbatim>\<open>Main.py\<close>. The
  number of squares comes from the recorded calories, so the string of squares is built
  with \<open>times\<close> and may fail.\<close>

definition print_calories_bar :: "nat \<Rightarrow> nat \<Rightarrow> pystr \<Rightarrow> pyfloat \<Rightarrow> unit io" where
  "print_calories_bar capacity label_size label calories =
     bind (lift (floordiv calories CALORIES_PER_SQUARE)) (\<lambda>quotient.
     bind (lift (pyint quotient)) (\<lambda>number_of_squares.
     bind (lift (times capacity number_of_squares [FULL_BLOCK])) (\<lambda>squares.
     bind (lift (pymod calories CALORIES_PER_SQUARE)) (\<lambda>remainder.
     bind (lift (truediv CALORIES_PER_SQUARE (Fin 2))) (\<lambda>half_square.
     bind (lift (truediv remainder half_square)) (\<lambda>ratio.
     bind (lift (pyround ratio)) (\<lambda>state.
     bind (lift (getitem [LIGHT_SHADE, LEFT_HALF_BLOCK, FULL_BLOCK] state))
       (\<lambda>remainder_character.
     bind (lift (pyround calories)) (\<lambda>rounded.
     emit [println [Str (ljust label_size label @ squares @ [remainder_character]),
                    Integer rounded]])))))))))"

definition print_calories_bar_Final :: "nat \<Rightarrow> pystr \<Rightarrow> pyfloat \<Rightarrow> unit io" where
  "print_calories_bar_Final capacity = print_calories_bar capacity CALORIES_BAR_LABEL_SIZE"

definition print_calories_bar_Main :: "nat \<Rightarrow> pystr \<Rightarrow> pyfloat \<Rightarrow> unit io" where
  "print_calories_bar_Main capacity = print_calories_bar capacity 13"

fun str_nat :: "nat \<Rightarrow> pystr" where
  "str_nat n =
     (if n < 10 then [Chr (char_of (48 + n))]
      else str_nat (n div 10) @ [Chr (char_of (48 + n mod 10))])"

declare str_nat.simps [simp del]

text \<open>The loop of lines 300 to 305 of \<^verbatim>\<open>Final.py\<close> (181 to 185 of \<^verbatim>\<open>Main.py\<close>):
  \<open>index\<close> counts the exercises already printed. The statement
  \<^verbatim>\<open>total_calories_burned += exercises[index][1]\<close> is a float addition, rounded to the
  nearest float.\<close>

fun calories_bars ::
  "(pystr \<Rightarrow> pyfloat \<Rightarrow> unit io) \<Rightarrow> nat \<Rightarrow> pyfloat \<Rightarrow> (pystr \<times> pyfloat) list \<Rightarrow> pyfloat io" where
  "calories_bars bar index total_calories_burned [] = ret total_calories_burned"
| "calories_bars bar index total_calories_burned (exercise # exercises) =
     bind (bar (str_nat (index + 1) @ py ''. '' @ fst exercise) (snd exercise)) (\<lambda>_.
     calories_bars bar (index + 1) (float_add total_calories_burned (snd exercise))
       exercises)"

text \<open>Lines 297 to 308 of \<^verbatim>\<open>Final.py\<close> (178 to 188 of \<^verbatim>\<open>Main.py\<close>).\<close>

definition summary :: "(pystr \<Rightarrow> pyfloat \<Rightarrow> unit io) \<Rightarrow> (pystr \<times> pyfloat) list \<Rightarrow> unit io" where
  "summary bar exercises =
     (if length exercises > 0 then
        bind (emit [println [Str (nl @ py ''Calories burned per exercise:'')]]) (\<lambda>_.
        bind (calories_bars bar 0 (Fin 0) exercises) (\<lambda>total_calories_burned.
        bind (lift (pyround total_calories_burned)) (\<lambda>rounded.
        emit [println [Str (nl @ py ''Total:''), Integer rounded, Str (py ''calories'')]])))
      else if length exercises = 0 then
        emit [println [Str (nl @ py ''No exercises recorded.'')]]
      else ret ())"

section \<open>The session\<close>

definition run_command :: "(pystr \<Rightarrow> pyfloat option) \<Rightarrow> pystr \<Rightarrow> pyfloat io" where
  "run_command float_of command =
     bind (get_positive_number_Final float_of (py ''Weight (in pounds)?'')) (\<lambda>weight_pounds.
     let weight_kg = fmul weight_pounds KILOGRAMS_PER_POUND in
     bind (print_stat_Final (py ''Weight'') (FloatNum weight_kg) (py ''kilograms'')) (\<lambda>_.
     bind (if command = py ''biking'' \<or> command = py ''running'' then
             bind (get_positive_number_Final float_of (py ''Distance (in miles)?''))
               (\<lambda>distance_mi.
             let distance_km = fmul distance_mi KILOMETERS_PER_MILE in
             bind (print_stat_Final (py ''Distance'') (FloatNum distance_km) (py ''kilometers'')) (\<lambda>_.
             ret (Some distance_mi, Some distance_km)))
           else ret (None, None)) (\<lambda>(distance_mi, distance_km).
     bind (if \<not> (command \<noteq> py ''biking'' \<and> command \<noteq> py ''swimming'') then
             bind (get_positive_number_Final float_of (py ''Duration (in minutes)?''))
               (\<lambda>duration_minutes.
             bind (lift (truediv duration_minutes MINUTES_PER_HOUR)) (\<lambda>hours.
             ret (Some hours)))
           else ret None) (\<lambda>duration_hours.
     bind (if command = py ''biking'' then
             (case (distance_mi, duration_hours) of
                (Some d, Some t) \<Rightarrow> calc_biking_Final weight_kg d t
              | _ \<Rightarrow> lift (Inl TypeError))
           else if command = py ''running'' then
             (case distance_km of
                Some d \<Rightarrow> calc_running_Final float_of weight_kg d
              | None \<Rightarrow> lift (Inl TypeError))
           else
             (case duration_hours of
                Some t \<Rightarrow> calc_swimming_Final weight_kg t
              | None \<Rightarrow>
                  bind (get_index_of_one_of_Final (py ''Swimming style?'') SWIMMING_STYLES)
                    (\<lambda>style_index.
                  bind (lift (getitem SWIMMING_STYLE_METS (int style_index))) (\<lambda>_.
                  lift (Inl TypeError))))) (\<lambda>calories_burned.
     bind (print_stat_Final (py ''Calories burned'') (FloatNum calories_burned)
             (py ''calories'')) (\<lambda>_.
     ret calories_burned))))))"

text \<open>One pass through the body of the \<^verbatim>\<open>while\<close> loop of \<^verbatim>\<open>main\<close> in \<^verbatim>\<open>Final.py\<close>:
  \<open>Inl\<close> when \<^verbatim>\<open>should_exit\<close> has been set, \<open>Inr\<close> to go round again.\<close>

definition main_iteration_Final ::
  "(pystr \<Rightarrow> pyfloat option) \<Rightarrow> (pystr \<times> pyfloat) list
     \<Rightarrow> ((pystr \<times> pyfloat) list + (pystr \<times> pyfloat) list) io" where
  "main_iteration_Final float_of exercises =
     bind (emit [println [Str []]]) (\<lambda>_.
     bind (get_index_of_one_of_Final (py ''Command?'') COMMANDS_Final) (\<lambda>command_index.
     bind (lift (getitem COMMANDS_Final (int command_index))) (\<lambda>command.
     if command = py ''exit'' then ret (Inl exercises)
     else
       bind (run_command float_of command) (\<lambda>calories_burned.
       ret (Inr (exercises @ [(command, calories_burned)]))))))"

text \<open>In \<^verbatim>\<open>Main.py\<close> the body of \<^verbatim>\<open>run_command\<close> is written out in the loop of
  \<^verbatim>\<open>main\<close>, so the distance and the duration are variables of \<^verbatim>\<open>main\<close> that keep
  their value from one pass to the next (\<open>None\<close> while unbound).\<close>

record main_vars =
  m_exercises :: "(pystr \<times> pyfloat) list"
  m_distance_miles :: "pyfloat option"
  m_distance_km :: "pyfloat option"
  m_duration_hours :: "pyfloat option"

definition main_iteration_Main ::
  "(pystr \<Rightarrow> pyfloat option) \<Rightarrow> main_vars \<Rightarrow> (main_vars + main_vars) io" where
  "main_iteration_Main float_of vars =
     bind (emit [println [Str []]]) (\<lambda>_.
     bind (get_index_of_one_of_Main (py ''Command?'') COMMANDS_Main) (\<lambda>command_index.
     bind (lift (case index_of COMMANDS_Main (py ''exit'') of
                   None \<Rightarrow> Inl ValueError | Some i \<Rightarrow> Inr i)) (\<lambda>exit_index.
     if command_index = exit_index then ret (Inl vars)
     else
       bind (lift (getitem COMMANDS_Main (int command_index))) (\<lambda>command.
       if command = py ''swimming styles'' then
         bind (emit (println [Str (nl @ py ''Swimming styles:'')]
                     # map (\<lambda>style. println [Str (py '' -''), Str style]) SWIMMING_STYLES))
           (\<lambda>_. ret (Inr vars))
       else
         bind (get_positive_number_Main float_of (py ''Weight (pounds)?'')) (\<lambda>weight_lb.
         let weight_kg = fmul weight_lb KILOGRAMS_PER_POUND in
         bind (print_stat_Main (py ''Weight (kg)'') (FloatNum weight_kg)) (\<lambda>_.
         bind (if command = py ''biking'' \<or> command = py ''running'' then
                 bind (get_positive_number_Main float_of (py ''Distance (miles)?''))
                   (\<lambda>miles.
                 let km = fmul miles KILOMETERS_PER_MILE in
                 bind (print_stat_Main (py ''Distance (km)'') (FloatNum km)) (\<lambda>_.
                 ret (vars\<lparr>m_distance_miles := Some miles, m_distance_km := Some km\<rparr>)))
               else ret vars) (\<lambda>vars1.
         bind (if \<not> (command \<noteq> py ''biking'' \<and> command \<noteq> py ''swimming'') then
                 bind (get_positive_number_Main float_of (py ''Duration (minutes)?''))
                   (\<lambda>duration_minutes.
                 bind (lift (truediv duration_minutes MINUTES_PER_HOUR)) (\<lambda>hours.
                 ret (vars1\<lparr>m_duration_hours := Some hours\<rparr>)))
               else ret vars1) (\<lambda>vars2.
         bind (if command = py ''biking'' then
                 (case (m_distance_miles vars2, m_duration_hours vars2) of
                    (Some d, Some t) \<Rightarrow> calc_biking_Main weight_kg d t
                  | _ \<Rightarrow> lift (Inl UnboundLocalError))
               else if command = py ''running'' then
                 (case m_distance_km vars2 of
                    Some d \<Rightarrow> calc_running_Main float_of weight_kg d
                  | None \<Rightarrow> lift (Inl UnboundLocalError))
               else
                 (case m_duration_hours vars2 of
                    Some t \<Rightarrow> calc_swimming_Main weight_kg t
                  | None \<Rightarrow> lift (Inl UnboundLocalError))) (\<lambda>calories_burned.
         bind (print_stat_Main (py ''Calories burned'') (FloatNum calories_burned)) (\<lambda>_.
         ret (Inr (vars2\<lparr>m_exercises := m_exercises vars2 @ [(command, calories_burned)]\<rparr>))))))))))))"

text \<open>A parser to run the readers on concrete sessions: it agrees with Python's
  \<^verbatim>\<open>float\<close> on the strings of its table, whatever their case and the white space around
  them, and rejects every other string.\<close>

definition float_excerpt :: "pystr \<Rightarrow> pyfloat option" where
  "float_excerpt s =
     map_of [(py ''70'', Fin 70), (py ''20'', Fin 20), (py ''60'', Fin 60), (py ''30'', Fin 30),
             (py ''10'', Fin 10), (py ''154.3'', Fin 154.3), (py ''2.5'', Fin 2.5),
             (py ''0'', Fin 0), (py ''-3'', Fin (- 3)),
             (py ''inf'', PInf), (py ''-inf'', NInf), (py ''nan'', NaN)]
       (lower (strip s))"

section \<open>Every reader consumes a line\<close>

text \<open>The loop of \<^verbatim>\<open>main\<close> ends because each pass reads at least the command line, and
  standard input is a finite list of lines here. The two predicates say that a computation
  never hands back more input than it was given.\<close>

definition noninc :: "'a io \<Rightarrow> bool" where
  "noninc m = (\<forall>inp out x rest. m inp = (out, Return x rest) \<longrightarrow> length rest \<le> length inp)"

definition consuming :: "'a io \<Rightarrow> bool" where
  "consuming m = (\<forall>inp out x rest. m inp = (out, Return x rest) \<longrightarrow> length rest < length inp)"

lemma consuming_noninc: "consuming m \<Longrightarrow> noninc m"
  by (fastforce simp: consuming_def noninc_def)

lemma noninc_ret: "noninc (ret x)"
  by (simp add: noninc_def ret_def)

lemma noninc_emit: "noninc (emit es)"
  by (simp add: noninc_def emit_def)

lemma noninc_lift: "noninc (lift r)"
  by (auto simp: noninc_def lift_def split: sum.splits)

lemma bind_Return:
  "bind m f inp = (out, Return y rest) \<Longrightarrow>
   \<exists>o1 x mid o2. m inp = (o1, Return x mid) \<and> f x mid = (o2, Return y rest) \<and> out = o1 @ o2"
  by (auto simp: bind_def prepend_def split: prod.splits outcome.splits) (metis prod.collapse)

lemma noninc_bind: "noninc m \<Longrightarrow> (\<And>x. noninc (f x)) \<Longrightarrow> noninc (bind m f)"
  unfolding noninc_def by (metis bind_Return order_trans)

lemma consuming_bind1: "consuming m \<Longrightarrow> (\<And>x. noninc (f x)) \<Longrightarrow> consuming (bind m f)"
  unfolding noninc_def consuming_def by (metis bind_Return order_le_less_trans)

lemma consuming_bind2: "noninc m \<Longrightarrow> (\<And>x. consuming (f x)) \<Longrightarrow> consuming (bind m f)"
  unfolding noninc_def consuming_def by (metis bind_Return order_less_le_trans)

lemma prepend_Return: "prepend es r = (out, Return x rest) \<longleftrightarrow> (\<exists>o2. r = (o2, Return x rest) \<and> out = es @ o2)"
  by (cases r) (auto simp: prepend_def)

lemma positive_number_loop_Final_length:
  "positive_number_loop_Final float_of prompt inp = (out, Return x rest) \<Longrightarrow> length rest < length inp"
proof (induction inp arbitrary: out)
  case Nil
  then show ?case by simp
next
  case (Cons line inp)
  then show ?case
    by (fastforce simp: Let_def prepend_Return split: option.splits if_splits)
qed

lemma positive_number_loop_Main_length:
  "positive_number_loop_Main float_of prompt inp = (out, Return x rest) \<Longrightarrow> length rest < length inp"
proof (induction inp arbitrary: out)
  case Nil
  then show ?case by simp
next
  case (Cons line inp)
  then show ?case
    by (fastforce simp: Let_def prepend_Return split: option.splits if_splits)
qed

lemma index_of_one_of_loop_Final_length:
  "index_of_one_of_loop_Final prompt options inp = (out, Return x rest) \<Longrightarrow> length rest < length inp"
proof (induction inp arbitrary: out)
  case Nil
  then show ?case by simp
next
  case (Cons line inp)
  then show ?case
    by (fastforce simp: Let_def prepend_Return split: option.splits if_splits)
qed

lemma index_of_one_of_loop_Main_length:
  "index_of_one_of_loop_Main prompt options inp = (out, Return x rest) \<Longrightarrow> length rest < length inp"
proof (induction inp arbitrary: out)
  case Nil
  then show ?case by simp
next
  case (Cons line inp)
  then show ?case
    by (fastforce simp: Let_def prepend_Return split: option.splits if_splits)
qed

lemma yes_or_no_loop_length:
  "yes_or_no_loop prompt dflt response inp = (out, Return x rest) \<Longrightarrow> length rest < length inp"
proof (induction inp arbitrary: out)
  case Nil
  then show ?case by simp
next
  case (Cons line inp)
  then show ?case
    by (fastforce simp: Let_def prepend_Return split: option.splits if_splits list.splits)
qed

lemma consuming_get_positive_number_Final: "consuming (get_positive_number_Final float_of p)"
  unfolding consuming_def get_positive_number_Final_def
  by (blast dest: positive_number_loop_Final_length)

lemma consuming_get_positive_number_Main: "consuming (get_positive_number_Main float_of p)"
  unfolding consuming_def get_positive_number_Main_def
  by (blast dest: positive_number_loop_Main_length)

lemma consuming_get_index_of_one_of_Final: "consuming (get_index_of_one_of_Final p options)"
  unfolding consuming_def get_index_of_one_of_Final_def
  by (blast dest: index_of_one_of_loop_Final_length)

lemma consuming_get_index_of_one_of_Main: "consuming (get_index_of_one_of_Main p options)"
  unfolding consuming_def get_index_of_one_of_Main_def
  by (blast dest: index_of_one_of_loop_Main_length)

lemma consuming_get_yes_or_no: "consuming (get_yes_or_no p dflt)"
  unfolding consuming_def get_yes_or_no_def Let_def
  by (blast dest: yes_or_no_loop_length)

lemmas consuming_readers =
  consuming_get_positive_number_Final consuming_get_positive_number_Main
  consuming_get_index_of_one_of_Final consuming_get_index_of_one_of_Main
  consuming_get_yes_or_no

lemmas noninc_readers = consuming_readers [THEN consuming_noninc]

lemmas noninc_intros = noninc_bind noninc_ret noninc_emit noninc_lift noninc_readers

lemma noninc_print_stat: "noninc (print_stat_Final l n u)" "noninc (print_stat_Main l n)"
  by (simp_all add: print_stat_Final_def print_stat_Main_def noninc_emit)

lemma noninc_calc_biking:
  "noninc (calc_biking_Final w d t)" "noninc (calc_biking_Main w d t)"
  unfolding calc_biking_Final_def calc_biking_Main_def Let_def
  by (intro noninc_intros noninc_print_stat)+

lemma noninc_calc_running:
  "noninc (calc_running_Final float_of w d)" "noninc (calc_running_Main float_of w d)"
  unfolding calc_running_Final_def calc_running_Main_def Let_def
  by (intro noninc_intros)+

lemma noninc_calc_swimming:
  "noninc (calc_swimming_Final w t)" "noninc (calc_swimming_Main w t)"
  unfolding calc_swimming_Final_def calc_swimming_Main_def
  by (intro noninc_intros)+

lemma noninc_if: "noninc a \<Longrightarrow> noninc b \<Longrightarrow> noninc (if c then a else b)"
  by simp

lemma noninc_case_option:
  "noninc a \<Longrightarrow> (\<And>x. noninc (f x)) \<Longrightarrow> noninc (case v of None \<Rightarrow> a | Some x \<Rightarrow> f x)"
  by (cases v) simp_all

lemma noninc_case_prod: "(\<And>a b. noninc (f a b)) \<Longrightarrow> noninc (case p of (a, b) \<Rightarrow> f a b)"
  by (cases p) simp

lemma noninc_run_command: "noninc (run_command float_of command)"
  unfolding run_command_def Let_def
  by (intro noninc_intros noninc_print_stat noninc_if noninc_case_option noninc_case_prod
        noninc_calc_biking noninc_calc_running noninc_calc_swimming)

lemma consuming_main_iteration_Final: "consuming (main_iteration_Final float_of exercises)"
  unfolding main_iteration_Final_def
  by (intro consuming_bind2 [OF noninc_emit] consuming_bind1 [OF consuming_get_index_of_one_of_Final]
        noninc_intros noninc_if noninc_run_command)

lemma consuming_main_iteration_Main: "consuming (main_iteration_Main float_of vars)"
  unfolding main_iteration_Main_def Let_def
  by (intro consuming_bind2 [OF noninc_emit] consuming_bind1 [OF consuming_get_index_of_one_of_Main]
        noninc_intros noninc_print_stat noninc_if noninc_case_option noninc_case_prod
        noninc_calc_biking noninc_calc_running noninc_calc_swimming)

function main_loop_Final ::
  "(pystr \<Rightarrow> pyfloat option) \<Rightarrow> (pystr \<times> pyfloat) list \<Rightarrow> (pystr \<times> pyfloat) list io" where
  "main_loop_Final float_of exercises inp =
     (case main_iteration_Final float_of exercises inp of
        (out, Raise e) \<Rightarrow> (out, Raise e)
      | (out, Return (Inl done) rest) \<Rightarrow> (out, Return done rest)
      | (out, Return (Inr exercises1) rest) \<Rightarrow>
          prepend out (main_loop_Final float_of exercises1 rest))"
  by pat_completeness auto
termination
proof (relation "measure (\<lambda>(float_of, exercises, inp). length inp)")
  show "wf (measure (\<lambda>(float_of, exercises, inp). length inp))" by simp
next
  fix float_of :: "pystr \<Rightarrow> pyfloat option"
    and exercises inp x1 x2 x21 x22 b
  assume "(x1, x2) = main_iteration_Final float_of exercises inp" "x2 = Return x21 x22" "x21 = Inr b"
  then have "main_iteration_Final float_of exercises inp = (x1, Return (Inr b) x22)" by simp
  with consuming_main_iteration_Final have "length x22 < length inp"
    unfolding consuming_def by blast
  then show "((float_of, b, x22), (float_of, exercises, inp)) \<in> measure (\<lambda>(float_of, exercises, inp). length inp)"
    by simp
qed


function main_loop_Main ::
  "(pystr \<Rightarrow> pyfloat option) \<Rightarrow> main_vars \<Rightarrow> main_vars io" where
  "main_loop_Main float_of vars inp =
     (case main_iteration_Main float_of vars inp of
        (out, Raise e) \<Rightarrow> (out, Raise e)
      | (out, Return (Inl done) rest) \<Rightarrow> (out, Return done rest)
      | (out, Return (Inr vars1) rest) \<Rightarrow>
          prepend out (main_loop_Main float_of vars1 rest))"
  by pat_completeness auto
termination
proof (relation "measure (\<lambda>(float_of, vars, inp). length inp)")
  show "wf (measure (\<lambda>(float_of, vars, inp). length inp))" by simp
next
  fix float_of :: "pystr \<Rightarrow> pyfloat option"
    and vars inp x1 x2 x21 x22 b
  assume "(x1, x2) = main_iteration_Main float_of vars inp" "x2 = Return x21 x22" "x21 = Inr b"
  then have "main_iteration_Main float_of vars inp = (x1, Return (Inr b) x22)" by simp
  with consuming_main_iteration_Main have "length x22 < length inp"
    unfolding consuming_def by blast
  then show "((float_of, b, x22), (float_of, vars, inp)) \<in> measure (\<lambda>(float_of, vars, inp). length inp)"
    by simp
qed

definition main_Final :: "nat \<Rightarrow> (pystr \<Rightarrow> pyfloat option) \<Rightarrow> unit io" where
  "main_Final capacity float_of =
     bind (emit
       [Print [Str TITLE, Str (repeat (length TITLE) [BOX_HORIZONTAL])] nl nl,
        println [Str (py ''When prompted by a label and question mark, such as 'Command?', ''
                      @ py ''type the relevant information and press enter.'')],
        println [Str (py ''The commands are:''), Str (join (py '', '') COMMANDS_Final)]]) (\<lambda>_.
     bind (main_loop_Final float_of []) (\<lambda>exercises.
     summary (print_calories_bar_Final capacity) exercises))"

definition main_Main :: "nat \<Rightarrow> (pystr \<Rightarrow> pyfloat option) \<Rightarrow> unit io" where
  "main_Main capacity float_of =
     bind (emit
       [Print [Str TITLE, Str (repeat (length TITLE) [BOX_HORIZONTAL])] nl nl,
        println [Str (py ''The commands are:''), Str (join (py '', '') COMMANDS_Main)]]) (\<lambda>_.
     bind (main_loop_Main float_of
             \<lparr>m_exercises = [], m_distance_miles = None, m_distance_km = None,
              m_duration_hours = None\<rparr>) (\<lambda>vars.
     summary (print_calories_bar_Main capacity) (m_exercises vars)))"

section \<open>Notions used in the statements\<close>



section \<open>Properties of the calculators\<close>


lemma constrain_Fin:
  assumes "to_float lo = Fin l" and "to_float n = Fin x" and "to_float hi = Fin u"
  shows "to_float (constrain lo n hi) = Fin (min (max l x) u)"
  using assms by (simp add: constrain_def pymin_def pymax_def fgt_def min_def max_def)






lemma fitness_Fin:
  assumes "r \<noteq> 0"
  shows "car_resp_fitness_factor (Fin a) (Fin r) =
     Inr (Fin (min (max 1 (1.285 - 0.005 * (15.3 * (208 - 0.7 * a) / r))) 1.07))"
  using assms by (simp add: car_resp_fitness_factor_def fsub_def constrain_Fin)

text \<open>
  C4, as stated, says that any value above 1 is clamped down to 1.07. The program computes
  \<open>min(max(1, x), 1.07)\<close>, an ordinary clamp to the interval from 1 to 1.07: for the age 30
  and the resting heart rate 60 the value \<open>x = 1.046575\<close> is above 1 and is returned as it
  is, not as 1.07.
\<close>

theorem fitness_factor_not_pinned_counterexample:
  "car_resp_fitness_factor (Fin 30) (Fin 60) = Inr (Fin 1.046575)
   \<and> (1::real) < 1.285 - 0.005 * (15.3 * (208 - 0.7 * 30) / 60)
   \<and> (1.046575::real) \<noteq> 1.07"
  by (simp add: fitness_Fin)

text \<open>
  C4, amended. For every age \<open>a > 0\<close> and resting heart rate \<open>r > 0\<close> the fitness factor is
  \<open>min(max(1, x), 1.07)\<close> with \<open>x = 1.285 - 0.005 * VO2max\<close>; it always lies between 1 and
  1.07; a value of \<open>x\<close> above 1.07 gives 1.07, a value below 1 gives 1, and a value in
  between is returned unchanged.
\<close>

theorem fitness_factor_clamp:
  assumes "0 < a" and "0 < r"
  defines "x \<equiv> 1.285 - 0.005 * (15.3 * (208 - 0.7 * a) / r)"
  shows "\<exists>f. car_resp_fitness_factor (Fin a) (Fin r) = Inr (Fin f)
           \<and> f = min (max 1 x) 1.07 \<and> 1 \<le> f \<and> f \<le> 1.07
           \<and> (1.07 < x \<longrightarrow> f = 1.07) \<and> (1 \<le> x \<and> x \<le> 1.07 \<longrightarrow> f = x) \<and> (x < 1 \<longrightarrow> f = 1)"
proof -
  have nz: "r \<noteq> 0" using assms(2) by simp
  have "car_resp_fitness_factor (Fin a) (Fin r) = Inr (Fin (min (max 1 x) 1.07))"
    unfolding x_def by (rule fitness_Fin [OF nz])
  moreover have "1 \<le> min (max 1 x) 1.07" and "min (max 1 x) 1.07 \<le> 1.07"
    by (simp_all add: min_def max_def)
  moreover have "1.07 < x \<longrightarrow> min (max 1 x) 1.07 = 1.07"
    and "1 \<le> x \<and> x \<le> 1.07 \<longrightarrow> min (max 1 x) 1.07 = x"
    and "x < 1 \<longrightarrow> min (max 1 x) 1.07 = 1"
    by (simp_all add: min_def max_def)
  ultimately show ?thesis by blast
qed

theorem fitness_factor_clamp_witness:
  "(0::real) < 30 \<and> (0::real) < 60 \<and> car_resp_fitness_factor (Fin 30) (Fin 60) = Inr (Fin 1.046575)"
  using fitness_factor_clamp [of 30 60] by (simp add: fitness_Fin)

section \<open>Properties of the bar renderer and the summary\<close>
































lemma exit_normal: "lower (strip (py ''exit'')) = py ''exit''"
  by code_simp

lemma py_eq_iff: "py a = py b \<longleftrightarrow> a = b"
  by (simp add: py_def inj_on_def)

lemma index_of_one_of_loop_Final_accept:
  assumes "lower (strip line) = u" and "u \<noteq> py ''options''" and "index_of options u = Some i"
  shows "index_of_one_of_loop_Final p options (line # rest) =
           ([Input p, clear_screen], Return i rest)"
  using assms by simp


text \<open>
  C8. With no exercise recorded the summary is the single line \<open>No exercises recorded.\<close>: when
  the loop of \<open>main\<close> ends with an empty list, the program prints its header, what the loop
  printed, and that notice, with no bar and no total line.
\<close>

theorem no_exercises_notice:
  "summary bar [] inp = ([println [Str (nl @ py ''No exercises recorded.'')]], Return () inp)
   \<and> (main_loop_Final float_of [] inp = (out, Return [] rest) \<longrightarrow>
        main_Final capacity float_of inp =
          ([Print [Str TITLE, Str (repeat (length TITLE) [BOX_HORIZONTAL])] nl nl,
            println [Str (py ''When prompted by a label and question mark, such as 'Command?', ''
                          @ py ''type the relevant information and press enter.'')],
            println [Str (py ''The commands are:''), Str (join (py '', '') COMMANDS_Final)]]
           @ out @ [println [Str (nl @ py ''No exercises recorded.'')]],
           Return () rest))
   \<and> (main_loop_Main float_of
          \<lparr>m_exercises = [], m_distance_miles = None, m_distance_km = None,
           m_duration_hours = None\<rparr> inp = (out1, Return vars rest1)
        \<and> m_exercises vars = [] \<longrightarrow>
        main_Main capacity float_of inp =
          ([Print [Str TITLE, Str (repeat (length TITLE) [BOX_HORIZONTAL])] nl nl,
            println [Str (py ''The commands are:''), Str (join (py '', '') COMMANDS_Main)]]
           @ out1 @ [println [Str (nl @ py ''No exercises recorded.'')]],
           Return () rest1))"
  by (simp add: summary_def main_Final_def main_Main_def bind_def emit_def prepend_def)

theorem no_exercises_notice_witness:
  "main_loop_Final (\<lambda>s. None) [] [py ''exit''] =
     ([println [Str []],
       Input (ljust 30 (py ''Command?'') @ py '' | '' @ CLEAR_REST_OF_LINE), clear_screen],
      Return [] [])
   \<and> main_Final 1000 (\<lambda>s. None) [py ''exit''] =
     ([Print [Str TITLE, Str (repeat (length TITLE) [BOX_HORIZONTAL])] nl nl,
       println [Str (py ''When prompted by a label and question mark, such as 'Command?', ''
                     @ py ''type the relevant information and press enter.'')],
       println [Str (py ''The commands are:''), Str (join (py '', '') COMMANDS_Final)]]
      @ [println [Str []],
         Input (ljust 30 (py ''Command?'') @ py '' | '' @ CLEAR_REST_OF_LINE), clear_screen]
      @ [println [Str (nl @ py ''No exercises recorded.'')]],
      Return () [])"
proof -
  have rd: "get_index_of_one_of_Final (py ''Command?'') COMMANDS_Final [py ''exit''] =
     ([Input (ljust 30 (py ''Command?'') @ py '' | '' @ CLEAR_REST_OF_LINE), clear_screen],
      Return 3 [])"
    unfolding get_index_of_one_of_Final_def LABEL_COLUMN_SIZE_Final_def
    by (rule index_of_one_of_loop_Final_accept [OF exit_normal])
       (simp_all add: COMMANDS_Final_def py_eq_iff)
  have it: "main_iteration_Final (\<lambda>s. None) [] [py ''exit''] =
     ([println [Str []],
       Input (ljust 30 (py ''Command?'') @ py '' | '' @ CLEAR_REST_OF_LINE), clear_screen],
      Return (Inl []) [])"
  proof -
    have g: "getitem COMMANDS_Final 3 = Inr (py ''exit'')"
      by (simp add: getitem_def COMMANDS_Final_def)
    show ?thesis
      by (simp add: main_iteration_Final_def rd g bind_def emit_def lift_def ret_def
          prepend_def)
  qed
  have loop: "main_loop_Final (\<lambda>s. None) [] [py ''exit''] =
     ([println [Str []],
       Input (ljust 30 (py ''Command?'') @ py '' | '' @ CLEAR_REST_OF_LINE), clear_screen],
      Return [] [])"
    by (subst main_loop_Final.simps) (simp add: it)
  show ?thesis
    using loop no_exercises_notice [where bar = "print_calories_bar_Final 1000"
      and capacity = 1000 and float_of = "\<lambda>s. None" and inp = "[py ''exit'']" and rest = "[]"
      and out = "[println [Str []],
        Input (ljust 30 (py ''Command?'') @ py '' | '' @ CLEAR_REST_OF_LINE), clear_screen]"]
    by simp
qed

section \<open>Properties of the positive-number reader\<close>

lemma isspace_lower_char: "isspace (lower_char c) = isspace c"
  by (cases c) (auto simp: isspace_def lower_char_def Let_def)

lemma lower_char_idem: "lower_char (lower_char c) = lower_char c"
  by (cases c) (auto simp: lower_char_def Let_def)

lemma lower_idem: "lower (lower s) = lower s"
  by (simp add: lower_def lower_char_idem)

lemma dropWhile_isspace_lower: "dropWhile isspace (lower s) = lower (dropWhile isspace s)"
  by (induction s) (simp_all add: lower_def isspace_lower_char)

lemma strip_lower: "strip (lower s) = lower (strip s)"
proof -
  have r: "rev (lower s) = lower (rev s)" for s by (simp add: lower_def rev_map)
  show ?thesis by (simp add: strip_def r dropWhile_isspace_lower)
qed

lemma float_excerpt_lower: "float_excerpt (lower s) = float_excerpt s"
  by (simp add: float_excerpt_def strip_lower lower_idem)

lemma positive_number_loop_Final_head:
  "\<exists>es. fst (positive_number_loop_Final float_of p inp) = Input p # es"
  by (cases inp) (auto simp: Let_def prepend_def split: option.splits)

lemma positive_number_loop_Main_head:
  "\<exists>es. fst (positive_number_loop_Main float_of p inp) = Input p # es"
  by (cases inp) (auto simp: Let_def prepend_def split: option.splits)

lemma prepend_inject: "prepend es r = prepend es' r \<longleftrightarrow> es = es'"
  by (simp add: prepend_def)

lemma prepend_neq_accept:
  assumes "fst r \<noteq> []"
  shows "prepend (a # b # es) r \<noteq> ([a, b], x)"
  using assms by (simp add: prepend_def)


lemma reject_neq_accept: "prepend (a # b # c # es) r \<noteq> ([a, b], x)"
  by (simp add: prepend_def)

lemma diagnostics_Final_distinct:
  "[a, b, println [Str (u @ py '' is not greater than zero. Please try again.'')], cursor_up 2]
   \<noteq> [a, b, println [Str (quote @ u @ quote @ py '' is not a number. Please try again.'')],
        println [Str (py ''(You must use digits, not words, as in '10', not 'ten'.)'')],
        cursor_up 3]"
  by simp

lemma diagnostics_Main_distinct:
  "[a, b, println [Str (py ''The number must be positive. Please try again.'')], cursor_up 2]
   \<noteq> [a, b, println [Str (quote @ u @ quote @ py '' is not a number. Please try again.'')],
        cursor_up 2]"
  by (simp add: println_def py_def quote_def)

lemma messages_Main_distinct:
  "println [Str (quote @ u @ quote @ py '' is not a number. Please try again.'')]
   \<noteq> println [Str (py ''The number must be positive. Please try again.'')]"
  by (simp add: println_def py_def quote_def)

lemma messages_Final_distinct:
  "println [Str (u @ py '' is not greater than zero. Please try again.'')]
   \<noteq> println [Str (quote @ u @ quote @ py '' is not a number. Please try again.'')]"
proof
  assume "println [Str (u @ py '' is not greater than zero. Please try again.'')]
    = println [Str (quote @ u @ quote @ py '' is not a number. Please try again.'')]"
  then have "u @ py '' is not greater than zero. Please try again.''
    = quote @ u @ quote @ py '' is not a number. Please try again.''"
    by (simp add: println_def)
  then have "length (u @ py '' is not greater than zero. Please try again.'')
    = length (quote @ u @ quote @ py '' is not a number. Please try again.'')"
    by (rule arg_cong)
  then show False by (simp add: py_def quote_def)
qed

text \<open>
  C5, amended. Let \<^verbatim>\<open>float\<close> be insensitive to case, as Python's is (\<^verbatim>\<open>Final.py\<close> lower-cases
  the trimmed line before parsing it, \<^verbatim>\<open>Main.py\<close> does not). Then for every line the reader
  does exactly one of three things, in both files:
  \<^item> it returns the parsed value, having printed nothing but the prompt and the screen
    clearing, exactly when the trimmed line parses to a value greater than 0;
  \<^item> it prints the "not a number" diagnostic and runs again on the rest of the input exactly
    when the trimmed line does not parse;
  \<^item> it prints the "not greater than zero" diagnostic (in \<^verbatim>\<open>Main.py\<close>: "The number must be
    positive") and runs again on the rest of the input exactly when the trimmed line
    parses to a value that is not greater than 0: a number \<open>\<le> 0\<close>, or NaN.
  Running again starts by issuing the same prompt: a rejection never ends the reader.
\<close>

theorem get_positive_number_cases:
  fixes prompt :: pystr
  assumes insensitive: "\<And>s. float_of (lower s) = float_of s"
  defines "pF \<equiv> ljust 30 prompt @ py '' | '' @ CLEAR_REST_OF_LINE"
    and "pM \<equiv> ljust 28 prompt @ py '' | '' @ CLEAR_REST_OF_LINE"
  shows
   "((\<exists>v. float_of (strip line) = Some v \<and> fgt v (Fin 0)) \<longleftrightarrow>
       (\<exists>v. get_positive_number_Final float_of prompt (line # rest) =
              ([Input pF, clear_screen], Return v rest)))
  \<and> (\<forall>v. get_positive_number_Final float_of prompt (line # rest) =
              ([Input pF, clear_screen], Return v rest) \<longrightarrow> float_of (strip line) = Some v)
  \<and> (float_of (strip line) = None \<longleftrightarrow>
       get_positive_number_Final float_of prompt (line # rest) =
         prepend [Input pF, clear_screen,
                  println [Str (quote @ lower (strip line) @ quote
                                @ py '' is not a number. Please try again.'')],
                  println [Str (py ''(You must use digits, not words, as in '10', not 'ten'.)'')],
                  cursor_up 3]
           (get_positive_number_Final float_of prompt rest))
  \<and> ((\<exists>v. float_of (strip line) = Some v \<and> \<not> fgt v (Fin 0)) \<longleftrightarrow>
       get_positive_number_Final float_of prompt (line # rest) =
         prepend [Input pF, clear_screen,
                  println [Str (lower (strip line)
                                @ py '' is not greater than zero. Please try again.'')],
                  cursor_up 2]
           (get_positive_number_Final float_of prompt rest))
  \<and> (\<exists>es. fst (get_positive_number_Final float_of prompt rest) = Input pF # es)
  \<and> ((\<exists>v. float_of (strip line) = Some v \<and> fgt v (Fin 0)) \<longleftrightarrow>
       (\<exists>v. get_positive_number_Main float_of prompt (line # rest) =
              ([Input pM, clear_screen], Return v rest)))
  \<and> (\<forall>v. get_positive_number_Main float_of prompt (line # rest) =
              ([Input pM, clear_screen], Return v rest) \<longrightarrow> float_of (strip line) = Some v)
  \<and> (float_of (strip line) = None \<longleftrightarrow>
       get_positive_number_Main float_of prompt (line # rest) =
         prepend [Input pM, clear_screen,
                  println [Str (quote @ strip line @ quote
                                @ py '' is not a number. Please try again.'')],
                  cursor_up 2]
           (get_positive_number_Main float_of prompt rest))
  \<and> ((\<exists>v. float_of (strip line) = Some v \<and> \<not> fgt v (Fin 0)) \<longleftrightarrow>
       get_positive_number_Main float_of prompt (line # rest) =
         prepend [Input pM, clear_screen,
                  println [Str (py ''The number must be positive. Please try again.'')],
                  cursor_up 2]
           (get_positive_number_Main float_of prompt rest))
  \<and> (\<exists>es. fst (get_positive_number_Main float_of prompt rest) = Input pM # es)"
proof -
  have low: "float_of (lower (strip line)) = float_of (strip line)" by (rule insensitive)
  have F: ?thesis if "float_of (strip line) = None"
    using that low positive_number_loop_Final_head [of float_of pF rest]
      positive_number_loop_Main_head [of float_of pM rest]
    unfolding get_positive_number_Final_def get_positive_number_Main_def
      LABEL_COLUMN_SIZE_Final_def LABEL_COLUMN_SIZE_Main_def pF_def pM_def
    by (simp add: prepend_inject reject_neq_accept reject_neq_accept [symmetric]
        messages_Main_distinct
        messages_Final_distinct messages_Main_distinct [symmetric]
        messages_Final_distinct [symmetric])
  have G: ?thesis if "float_of (strip line) = Some v" for v
    using that low positive_number_loop_Final_head [of float_of pF rest]
      positive_number_loop_Main_head [of float_of pM rest]
    unfolding get_positive_number_Final_def get_positive_number_Main_def
      LABEL_COLUMN_SIZE_Final_def LABEL_COLUMN_SIZE_Main_def pF_def pM_def
    by (simp add: prepend_inject reject_neq_accept reject_neq_accept [symmetric]
        messages_Main_distinct
        messages_Final_distinct messages_Main_distinct [symmetric]
        messages_Final_distinct [symmetric])
  show ?thesis using F G by (cases "float_of (strip line)") blast+
qed


lemma excerpt_values:
  "float_excerpt (py ''nan'') = Some NaN"
  "float_excerpt (py '' 154.3 '') = Some (Fin 154.3)"
  "float_excerpt (strip (py '' 154.3 '')) = Some (Fin 154.3)"
proof -
  have n: "lower (strip (py ''nan'')) = py ''nan''"
    "lower (strip (py '' 154.3 '')) = py ''154.3''"
    "lower (strip (strip (py '' 154.3 ''))) = py ''154.3''"
    by code_simp+
  show "float_excerpt (py ''nan'') = Some NaN"
    "float_excerpt (py '' 154.3 '') = Some (Fin 154.3)"
    "float_excerpt (strip (py '' 154.3 '')) = Some (Fin 154.3)"
    by (simp_all add: float_excerpt_def n py_eq_iff)
qed

lemma nan_normal: "lower (py ''nan'') = py ''nan''" "strip (py ''nan'') = py ''nan''"
  by code_simp+

lemma py_append: "py a @ py b = py (a @ b)"
  by (simp add: py_def)

text \<open>
  C5, as stated, says that the "not greater than zero" diagnostic appears exactly when the
  parsed number is \<open>\<le> 0\<close>. The line \<^verbatim>\<open>nan\<close> parses (\<^verbatim>\<open>float("nan")\<close> does not raise), the
  value is not \<open>\<le> 0\<close>, and both readers reject it with that diagnostic, because they test
  \<^verbatim>\<open>number > 0\<close> and take the \<^verbatim>\<open>else\<close> branch. (The session ends with \<^verbatim>\<open>EOFError\<close> here since
  the input has no second line.)
\<close>

theorem get_positive_number_nan_counterexample:
  "float_excerpt (strip (py ''nan'')) = Some NaN \<and> \<not> fle NaN (Fin 0)
   \<and> get_positive_number_Final float_excerpt (py ''Weight (in pounds)?'') [py ''nan''] =
       ([Input (ljust 30 (py ''Weight (in pounds)?'') @ py '' | '' @ CLEAR_REST_OF_LINE),
         clear_screen,
         println [Str (py ''nan is not greater than zero. Please try again.'')],
         cursor_up 2,
         Input (ljust 30 (py ''Weight (in pounds)?'') @ py '' | '' @ CLEAR_REST_OF_LINE)],
        Raise EOFError)
   \<and> get_positive_number_Main float_excerpt (py ''Weight (pounds)?'') [py ''nan''] =
       ([Input (ljust 28 (py ''Weight (pounds)?'') @ py '' | '' @ CLEAR_REST_OF_LINE),
         clear_screen,
         println [Str (py ''The number must be positive. Please try again.'')],
         cursor_up 2,
         Input (ljust 28 (py ''Weight (pounds)?'') @ py '' | '' @ CLEAR_REST_OF_LINE)],
        Raise EOFError)"
  by (simp add: get_positive_number_Final_def get_positive_number_Main_def nan_normal
      excerpt_values fle_def fgt_def prepend_def LABEL_COLUMN_SIZE_Final_def
      LABEL_COLUMN_SIZE_Main_def py_append Let_def)

theorem get_positive_number_cases_witness:
  "(\<forall>s. float_excerpt (lower s) = float_excerpt s)
   \<and> get_positive_number_Final float_excerpt (py ''Weight (in pounds)?'') [py '' 154.3 ''] =
       ([Input (ljust 30 (py ''Weight (in pounds)?'') @ py '' | '' @ CLEAR_REST_OF_LINE),
         clear_screen], Return (Fin 154.3) [])
   \<and> get_positive_number_Main float_excerpt (py ''Weight (in pounds)?'') [py '' 154.3 ''] =
       ([Input (ljust 28 (py ''Weight (in pounds)?'') @ py '' | '' @ CLEAR_REST_OF_LINE),
         clear_screen], Return (Fin 154.3) [])"
proof -
  note inst = get_positive_number_cases [where float_of = float_excerpt
      and prompt = "py ''Weight (in pounds)?''" and line = "py '' 154.3 ''" and rest = "[]",
      OF float_excerpt_lower]
  have ok: "\<exists>v. float_excerpt (strip (py '' 154.3 '')) = Some v \<and> fgt v (Fin 0)"
    by (simp add: excerpt_values fgt_def)
  from inst ok obtain v where
    "get_positive_number_Final float_excerpt (py ''Weight (in pounds)?'') [py '' 154.3 ''] =
       ([Input (ljust 30 (py ''Weight (in pounds)?'') @ py '' | '' @ CLEAR_REST_OF_LINE),
         clear_screen], Return v [])"
    by blast
  moreover from this inst have "float_excerpt (strip (py '' 154.3 '')) = Some v" by blast
  moreover from inst ok obtain w where
    "get_positive_number_Main float_excerpt (py ''Weight (in pounds)?'') [py '' 154.3 ''] =
       ([Input (ljust 28 (py ''Weight (in pounds)?'') @ py '' | '' @ CLEAR_REST_OF_LINE),
         clear_screen], Return w [])"
    by blast
  moreover from this inst have "float_excerpt (strip (py '' 154.3 '')) = Some w" by blast
  ultimately show ?thesis by (simp add: excerpt_values float_excerpt_lower)
qed

section \<open>Properties of swimming and running\<close>




lemma below_ten:
  assumes "i < (10::nat)"
  shows "i \<in> {0, 1, 2, 3, 4, 5, 6, 7, 8, 9}"
  using assms by auto

lemma style_met:
  assumes "i < 10"
  shows "getitem SWIMMING_STYLE_METS (int i) =
           Inr (Fin ([9.5, 4.8, 10.3, 5.3, 13.8, 10.0, 8.3, 7.0, 9.8, 3.5] ! i))"
  using below_ten [OF assms] by (auto simp: getitem_def SWIMMING_STYLE_METS_def)

lemma style_index:
  assumes "i < 10"
  shows "index_of SWIMMING_STYLES (SWIMMING_STYLES ! i) = Some i"
    and "SWIMMING_STYLES ! i \<noteq> py ''options''"
  using below_ten [OF assms] by (auto simp: SWIMMING_STYLES_def py_eq_iff)












end
